theory Spec2Isabelle
  imports Complex_Main
begin

section \<open>JavaScript values and the runtime\<close>

text \<open>
  The values that flow through \<^verbatim>\<open>src/App.jsx\<close>: what \<^verbatim>\<open>res.json()\<close> and
  \<^verbatim>\<open>JSON.parse\<close> produce, and \<^verbatim>\<open>undefined\<close>, which reading a missing property gives.
  An object is the list of its own properties.
\<close>

datatype jsval =
    JUndefined
  | JNull
  | JBool bool
  | JNum rat
  | JStr string
  | JArr "jsval list"
  | JObj "(string \<times> jsval) list"

text \<open>JavaScript truthiness, as used by \<^verbatim>\<open>if (x)\<close>, \<^verbatim>\<open>!x\<close> and \<^verbatim>\<open>x || y\<close>.\<close>

fun truthy :: "jsval \<Rightarrow> bool" where
  "truthy JUndefined = False"
| "truthy JNull = False"
| "truthy (JBool b) = b"
| "truthy (JNum n) = (n \<noteq> 0)"
| "truthy (JStr s) = (s \<noteq> [])"
| "truthy (JArr xs) = True"
| "truthy (JObj fs) = True"

text \<open>\<^verbatim>\<open>a || b\<close>.\<close>

definition js_or :: "jsval \<Rightarrow> jsval \<Rightarrow> jsval" where
  "js_or a b = (if truthy a then a else b)"

text \<open>
  The exceptions the source can meet: its own \<^verbatim>\<open>new Error(msg)\<close>, the \<^verbatim>\<open>TypeError\<close> of
  reading a property of \<^verbatim>\<open>null\<close> or \<^verbatim>\<open>undefined\<close> (also what a failed \<^verbatim>\<open>fetch\<close> rejects
  with), and the \<^verbatim>\<open>SyntaxError\<close> of malformed JSON.
\<close>

datatype exn = Error string | TypeError | SyntaxError

text \<open>
  Property access \<^verbatim>\<open>v.k\<close> for the keys the source reads (\<^verbatim>\<open>vendors\<close>, \<^verbatim>\<open>detail\<close>,
  \<^verbatim>\<open>access_token\<close>, \<^verbatim>\<open>user\<close>), none of which is a property of a built-in prototype:
  it throws on \<^verbatim>\<open>null\<close> and \<^verbatim>\<open>undefined\<close>, finds an own property of an object, and is
  \<^verbatim>\<open>undefined\<close> otherwise.
\<close>

fun get_prop :: "jsval \<Rightarrow> string \<Rightarrow> exn + jsval" where
  "get_prop JUndefined k = Inl TypeError"
| "get_prop JNull k = Inl TypeError"
| "get_prop (JObj fs) k = Inr (case map_of fs k of None \<Rightarrow> JUndefined | Some v \<Rightarrow> v)"
| "get_prop (JBool b) k = Inr JUndefined"
| "get_prop (JNum n) k = Inr JUndefined"
| "get_prop (JStr s) k = Inr JUndefined"
| "get_prop (JArr xs) k = Inr JUndefined"

text \<open>
  The built-ins of the JavaScript engine that the source calls and that are no code of this
  repository are parameters of the model: \<^verbatim>\<open>JSON.parse\<close> (\<open>None\<close> when it throws
  \<^verbatim>\<open>SyntaxError\<close>), \<^verbatim>\<open>JSON.stringify\<close> on a defined value, the string conversion of
  numbers, arrays and objects, and the message text of an engine-made exception.
\<close>

record runtime =
  JSON_parse :: "string \<Rightarrow> jsval option"
  JSON_stringify :: "jsval \<Rightarrow> string"
  ToString :: "jsval \<Rightarrow> string"
  native_message :: "exn \<Rightarrow> string"

text \<open>\<^verbatim>\<open>String(v)\<close>, as \<^verbatim>\<open>localStorage.setItem\<close> and \<^verbatim>\<open>new Error\<close> apply it.\<close>

fun js_String :: "runtime \<Rightarrow> jsval \<Rightarrow> string" where
  "js_String rt (JStr s) = s"
| "js_String rt JUndefined = ''undefined''"
| "js_String rt JNull = ''null''"
| "js_String rt (JBool b) = (if b then ''true'' else ''false'')"
| "js_String rt (JNum n) = ToString rt (JNum n)"
| "js_String rt (JArr xs) = ToString rt (JArr xs)"
| "js_String rt (JObj fs) = ToString rt (JObj fs)"

text \<open>
  \<^verbatim>\<open>String(JSON.stringify(v))\<close>: \<^verbatim>\<open>JSON.stringify(undefined)\<close> is \<^verbatim>\<open>undefined\<close>, which
  \<^verbatim>\<open>setItem\<close> stores as the text \<^verbatim>\<open>undefined\<close>.
\<close>

fun stringify_stored :: "runtime \<Rightarrow> jsval \<Rightarrow> string" where
  "stringify_stored rt JUndefined = ''undefined''"
| "stringify_stored rt v = JSON_stringify rt v"

text \<open>\<^verbatim>\<open>e.message\<close>.\<close>

fun message :: "runtime \<Rightarrow> exn \<Rightarrow> string" where
  "message rt (Error s) = s"
| "message rt TypeError = native_message rt TypeError"
| "message rt SyntaxError = native_message rt SyntaxError"

section \<open>The network\<close>

text \<open>
  A response as the source reads it: \<^verbatim>\<open>res.ok\<close>, and what \<^verbatim>\<open>await res.json()\<close> gives,
  either the parsed body or the exception it rejects with (a body that is not JSON).
  A \<^verbatim>\<open>fetch\<close> settles by rejecting (no response: network error, transport timeout) or by
  resolving to a response; a call that never settles runs no continuation at all.
\<close>

record response =
  ok :: bool
  json :: "exn + jsval"

datatype fetch_outcome = Rejected exn | Resolved response

section \<open>The sign-in form: \<^verbatim>\<open>AuthScreen\<close>\<close>

datatype auth_mode = login | register

record AuthScreen =
  mode :: auth_mode
  phone :: string
  email :: string
  name :: string
  password :: string
  loading :: bool
  error :: string

text \<open>The request \<^verbatim>\<open>handleSubmit\<close> posts; a field that is \<^verbatim>\<open>undefined\<close> is left out.\<close>

record auth_request =
  endpoint :: string
  payload :: "(string \<times> string) list"

definition canSubmit :: "AuthScreen \<Rightarrow> bool" where
  "canSubmit scr \<longleftrightarrow> length (password scr) \<ge> 6 \<and> (phone scr \<noteq> [] \<or> email scr \<noteq> [])"

text \<open>\<^verbatim>\<open>{ k: v || undefined }\<close>.\<close>

definition opt_field :: "string \<Rightarrow> string \<Rightarrow> (string \<times> string) list" where
  "opt_field k v = (if v \<noteq> [] then [(k, v)] else [])"

section \<open>The application state: \<^verbatim>\<open>App\<close>\<close>

text \<open>
  The position is the array \<^verbatim>\<open>[latitude, longitude]\<close> or \<^verbatim>\<open>null\<close>. React compares the
  dependencies of an effect with \<^verbatim>\<open>Object.is\<close>, which for an array is the identity of the
  object, so the array carries its identity (\<open>ref\<close>); \<open>fresh\<close> counts the arrays made.
\<close>

record latlng =
  ref :: nat
  latitude :: rat
  longitude :: rat

text \<open>
  The state variables of \<^verbatim>\<open>App\<close>, with the browser's \<^verbatim>\<open>localStorage\<close>, which the
  component reads and writes.
\<close>

record App =
  position :: "latlng option"
  vendors :: jsval
  serviceType :: string
  loading :: bool
  error :: string
  token :: jsval
  user :: jsval
  showAuthGate :: bool
  localStorage :: "string \<rightharpoonup> string"
  fresh :: nat

text \<open>The \<^verbatim>\<open>useState\<close> initial values, over a given \<^verbatim>\<open>localStorage\<close>.\<close>

definition initial :: "(string \<rightharpoonup> string) \<Rightarrow> App" where
  "initial ls = \<lparr> position = None, vendors = JArr [], serviceType = [], loading = False,
     error = [], token = JNull, user = JNull, showAuthGate = True, localStorage = ls,
     fresh = 0 \<rparr>"

section \<open>Persisted session store\<close>

text \<open>
  \<^verbatim>\<open>localStorage.setItem\<close> and \<^verbatim>\<open>removeItem\<close>. The store is taken to accept every write: an
  exhausted quota is no part of the model.
\<close>

definition setItem :: "string \<Rightarrow> string \<Rightarrow> App \<Rightarrow> App" where
  "setItem k v a = a\<lparr>localStorage := (localStorage a)(k \<mapsto> v)\<rparr>"

definition removeItem :: "string \<Rightarrow> App \<Rightarrow> App" where
  "removeItem k a = a\<lparr>localStorage := (localStorage a)(k := None)\<rparr>"

text \<open>Truthiness of what \<^verbatim>\<open>localStorage.getItem\<close> returns: \<^verbatim>\<open>null\<close> or a string.\<close>

definition truthy_item :: "string option \<Rightarrow> bool" where
  "truthy_item x = (case x of None \<Rightarrow> False | Some s \<Rightarrow> s \<noteq> [])"

section \<open>Session operations\<close>

text \<open>
  The restore effect of \<^verbatim>\<open>App\<close>. \<^verbatim>\<open>JSON.parse(u)\<close> is not guarded: when it throws, the
  effect throws, and \<^verbatim>\<open>setShowAuthGate(!t)\<close> is never reached.
\<close>

definition restore :: "runtime \<Rightarrow> App \<Rightarrow> exn + App" where
  "restore rt a =
     (let t = localStorage a ''madad_token'';
          u = localStorage a ''madad_user'';
          a1 = (case t of None \<Rightarrow> a | Some s \<Rightarrow> if s \<noteq> [] then a\<lparr>token := JStr s\<rparr> else a)
      in case u of
           None \<Rightarrow> Inr (a1\<lparr>showAuthGate := \<not> truthy_item t\<rparr>)
         | Some s \<Rightarrow>
             if s = [] then Inr (a1\<lparr>showAuthGate := \<not> truthy_item t\<rparr>)
             else
               (case JSON_parse rt s of
                  None \<Rightarrow> Inl SyntaxError
                | Some v \<Rightarrow> Inr (a1\<lparr>user := v, showAuthGate := \<not> truthy_item t\<rparr>)))"

definition logout :: "App \<Rightarrow> App" where
  "logout a =
     (removeItem ''madad_user'' (removeItem ''madad_token'' a))
       \<lparr>token := JNull, user := JNull, showAuthGate := True\<rparr>"

text \<open>
  \<^verbatim>\<open>verify\<close>, first half: no request without a token, else \<^verbatim>\<open>GET /api/auth/me\<close> with the
  \<^verbatim>\<open>Authorization\<close> header returned here.
\<close>

definition verify :: "runtime \<Rightarrow> App \<Rightarrow> string option" where
  "verify rt a =
     (if \<not> truthy (token a) then None else Some (''Bearer '' @ js_String rt (token a)))"

text \<open>The \<^verbatim>\<open>catch\<close> block of \<^verbatim>\<open>verify\<close>.\<close>

definition verify_catch :: "App \<Rightarrow> App" where
  "verify_catch a =
     (removeItem ''madad_user'' (removeItem ''madad_token'' a))
       \<lparr>token := JNull, user := JNull, showAuthGate := True\<rparr>"

text \<open>
  \<^verbatim>\<open>verify\<close>, second half: what runs when the request settles. Only \<^verbatim>\<open>res.ok\<close> is read;
  the body never is.
\<close>

definition verify_settled :: "fetch_outcome \<Rightarrow> App \<Rightarrow> App" where
  "verify_settled out a =
     (case out of
        Rejected e \<Rightarrow> verify_catch a
      | Resolved res \<Rightarrow> if \<not> ok res then verify_catch a else a)"

definition handleAuthed :: "jsval \<Rightarrow> jsval \<Rightarrow> App \<Rightarrow> App" where
  "handleAuthed tok usr a = a\<lparr>token := tok, user := usr, showAuthGate := False\<rparr>"

text \<open>
  The states after each of the three setter calls of \<^verbatim>\<open>handleAuthed\<close>, in their order: what
  a render can see of the call when React does not batch the updates. The last one is the
  state after the call.
\<close>

definition handleAuthed_renders :: "jsval \<Rightarrow> jsval \<Rightarrow> App \<Rightarrow> App list" where
  "handleAuthed_renders tok usr a =
     [a\<lparr>token := tok\<rparr>, a\<lparr>token := tok, user := usr\<rparr>,
      a\<lparr>token := tok, user := usr, showAuthGate := False\<rparr>]"

definition handleGuest :: "App \<Rightarrow> App" where
  "handleGuest a = a\<lparr>showAuthGate := False\<rparr>"

text \<open>
  \<^verbatim>\<open>handleSubmit\<close>, up to the \<^verbatim>\<open>fetch\<close>: nothing happens unless \<^verbatim>\<open>canSubmit\<close>, else the
  form shows loading, its error is cleared and the request is posted.
\<close>

definition handleSubmit :: "AuthScreen \<Rightarrow> AuthScreen \<times> auth_request option" where
  "handleSubmit scr =
     (if \<not> canSubmit scr then (scr, None)
      else (scr\<lparr>AuthScreen.loading := True, AuthScreen.error := []\<rparr>,
            Some \<lparr> endpoint =
                     (if mode scr = register then ''/api/auth/register'' else ''/api/auth/login''),
                   payload =
                     (if mode scr = register then opt_field ''name'' (name scr) else [])
                     @ opt_field ''phone'' (phone scr) @ opt_field ''email'' (email scr)
                     @ [(''password'', password scr)] \<rparr>))"

text \<open>The \<^verbatim>\<open>catch\<close> and \<^verbatim>\<open>finally\<close> blocks of \<^verbatim>\<open>handleSubmit\<close>.\<close>

definition submit_catch :: "runtime \<Rightarrow> exn \<Rightarrow> AuthScreen \<times> App \<Rightarrow> AuthScreen \<times> App" where
  "submit_catch rt e sa =
     ((fst sa)\<lparr>AuthScreen.error := message rt e, AuthScreen.loading := False\<rparr>, snd sa)"

text \<open>
  \<^verbatim>\<open>handleSubmit\<close>, from the settled \<^verbatim>\<open>fetch\<close> on. Between the awaits nothing is written,
  and the two \<^verbatim>\<open>setItem\<close> calls and \<^verbatim>\<open>onAuthed\<close> run in one synchronous stretch, so the
  continuation is one step on the form and the application.
\<close>

definition handleSubmit_settled ::
  "runtime \<Rightarrow> fetch_outcome \<Rightarrow> AuthScreen \<times> App \<Rightarrow> AuthScreen \<times> App" where
  "handleSubmit_settled rt out sa =
     (case out of
        Rejected e \<Rightarrow> submit_catch rt e sa
      | Resolved res \<Rightarrow>
          if \<not> ok res then
            (case get_prop (case json res of Inl e \<Rightarrow> JObj [] | Inr m \<Rightarrow> m) ''detail'' of
               Inl e \<Rightarrow> submit_catch rt e sa
             | Inr d \<Rightarrow>
                 submit_catch rt
                   (Error (js_String rt (js_or d (JStr ''Authentication failed'')))) sa)
          else
            (case json res of
               Inl e \<Rightarrow> submit_catch rt e sa
             | Inr data \<Rightarrow>
                 (case get_prop data ''access_token'' of
                    Inl e \<Rightarrow> submit_catch rt e sa
                  | Inr tok \<Rightarrow>
                      (case get_prop data ''user'' of
                         Inl e \<Rightarrow> submit_catch rt e sa
                       | Inr usr \<Rightarrow>
                           ((fst sa)\<lparr>AuthScreen.loading := False\<rparr>,
                            handleAuthed tok usr
                              (setItem ''madad_user'' (stringify_stored rt usr)
                                (setItem ''madad_token'' (js_String rt tok) (snd sa))))))))"

section \<open>Location\<close>

text \<open>
  The success callback of \<^verbatim>\<open>getCurrentPosition\<close> (on mount and from the locate button):
  \<^verbatim>\<open>setPosition\<close> with a newly made array. The error callback exists on mount only.
\<close>

definition geo_success :: "rat \<Rightarrow> rat \<Rightarrow> App \<Rightarrow> App" where
  "geo_success la lo a =
     a\<lparr>position := Some \<lparr>ref = fresh a, latitude = la, longitude = lo\<rparr>,
       fresh := Suc (fresh a)\<rparr>"

definition geo_error :: "App \<Rightarrow> App" where
  "geo_error a = a\<lparr>error := ''Location permission denied''\<rparr>"

text \<open>\<^verbatim>\<open>position || [24.8607, 67.0011]\<close>, the centre of the map.\<close>

definition center :: "App \<Rightarrow> rat \<times> rat" where
  "center a =
     (case position a of
        None \<Rightarrow> (24.8607, 67.0011)
      | Some p \<Rightarrow> (latitude p, longitude p))"

section \<open>Vendor queries\<close>

text \<open>
  The parameters of \<^verbatim>\<open>GET /api/vendors/nearby\<close>; \<^verbatim>\<open>lat\<close> and \<^verbatim>\<open>lng\<close> are kept as the
  numbers that \<^verbatim>\<open>String\<close> is applied to.
\<close>

record query =
  lat :: rat
  lng :: rat
  radius_km :: string
  service_type :: "string option"

text \<open>\<^verbatim>\<open>fetchNearby\<close>, up to the \<^verbatim>\<open>fetch\<close>: the new state and the request, if one is sent.\<close>

definition fetchNearby :: "App \<Rightarrow> App \<times> query option" where
  "fetchNearby a =
     (case position a of
        None \<Rightarrow> (a, None)
      | Some p \<Rightarrow>
          (a\<lparr>loading := True, error := []\<rparr>,
           Some \<lparr> lat = latitude p, lng = longitude p, radius_km = ''5'',
                  service_type = (if serviceType a \<noteq> [] then Some (serviceType a) else None) \<rparr>))"

text \<open>The \<^verbatim>\<open>catch\<close> and \<^verbatim>\<open>finally\<close> blocks of \<^verbatim>\<open>fetchNearby\<close>.\<close>

definition fetch_catch :: "App \<Rightarrow> App" where
  "fetch_catch a = a\<lparr>error := ''Could not load nearby vendors'', loading := False\<rparr>"

text \<open>\<^verbatim>\<open>fetchNearby\<close>, from the settled \<^verbatim>\<open>fetch\<close> on.\<close>

definition fetchNearby_settled :: "fetch_outcome \<Rightarrow> App \<Rightarrow> App" where
  "fetchNearby_settled out a =
     (case out of
        Rejected e \<Rightarrow> fetch_catch a
      | Resolved res \<Rightarrow>
          if \<not> ok res then fetch_catch a
          else
            (case json res of
               Inl e \<Rightarrow> fetch_catch a
             | Inr data \<Rightarrow>
                 (case get_prop data ''vendors'' of
                    Inl e \<Rightarrow> fetch_catch a
                  | Inr v \<Rightarrow> a\<lparr>vendors := js_or v (JArr []), loading := False\<rparr>)))"

text \<open>
  The effect \<^verbatim>\<open>useEffect(() => { fetchNearby() }, [position, serviceType])\<close>: after a render
  it runs when a dependency differs, under \<^verbatim>\<open>Object.is\<close>, from its value at the render
  before: the identity of the position array, the value of the category string.
\<close>

definition deps_changed :: "App \<Rightarrow> App \<Rightarrow> bool" where
  "deps_changed old new \<longleftrightarrow>
     map_option ref (position new) \<noteq> map_option ref (position old)
     \<or> serviceType new \<noteq> serviceType old"

definition fetch_effect :: "App \<Rightarrow> App \<Rightarrow> App \<times> query option" where
  "fetch_effect old new = (if deps_changed old new then fetchNearby new else (new, None))"

section \<open>Requests in flight\<close>

text \<open>
  Several vendor requests can be in flight, and they settle in any order. The system keeps
  the application state and the requests not yet settled, numbered in the order of their
  issue. The numbers are the identity of the promises; no code of the application reads
  them.
\<close>

record system =
  app :: App
  inflight :: "(nat \<times> query) list"
  issued :: nat

datatype event =
    Fix rat rat
  | SelectCategory string
  | Refresh
  | Settle nat fetch_outcome

definition issue :: "App \<times> query option \<Rightarrow> system \<Rightarrow> system" where
  "issue r s =
     (case snd r of
        None \<Rightarrow> s\<lparr>app := fst r\<rparr>
      | Some q \<Rightarrow>
          s\<lparr>app := fst r, inflight := inflight s @ [(issued s, q)], issued := Suc (issued s)\<rparr>)"

fun step :: "system \<Rightarrow> event \<Rightarrow> system" where
  "step s (Fix la lo) = issue (fetch_effect (app s) (geo_success la lo (app s))) s"
| "step s (SelectCategory k) = issue (fetch_effect (app s) ((app s)\<lparr>serviceType := k\<rparr>)) s"
| "step s Refresh = issue (fetchNearby (app s)) s"
| "step s (Settle n out) =
     (case map_of (inflight s) n of
        None \<Rightarrow> s
      | Some q \<Rightarrow>
          s\<lparr>app := fetchNearby_settled out (app s),
            inflight := filter (\<lambda>iq. fst iq \<noteq> n) (inflight s)\<rparr>)"

definition run :: "system \<Rightarrow> event list \<Rightarrow> system" where
  "run s evs = foldl step s evs"

definition start :: "App \<Rightarrow> system" where
  "start a = \<lparr> app = a, inflight = [], issued = 0 \<rparr>"

section \<open>Invariant and example values\<close>

text \<open>
  Every position array was made before the counter's present value, so the next array is
  a different object from the one in the state.
\<close>

definition position_known :: "App \<Rightarrow> bool" where
  "position_known a = (case position a of None \<Rightarrow> True | Some p \<Rightarrow> ref p < fresh a)"

text \<open>
  An engine for the examples below. Of \<^verbatim>\<open>JSON.parse\<close> it holds two entries, the texts
  \<^verbatim>\<open>{}\<close> and \<^verbatim>\<open>null\<close>, and the examples apply it to \<^verbatim>\<open>{}\<close> and to the text \<^verbatim>\<open>{\<close>, which
  no engine parses; \<^verbatim>\<open>JSON.stringify\<close> is applied to the empty object only, and the string
  conversion to an array of one object only. Its \<^verbatim>\<open>TypeError\<close> text is the one Firefox
  gives for reading a property of the variable \<^verbatim>\<open>msg\<close> when that is \<^verbatim>\<open>null\<close>.
\<close>

definition example_engine :: runtime where
  "example_engine =
     \<lparr> JSON_parse = map_of [(''{}'', JObj []), (''null'', JNull)],
       JSON_stringify = (\<lambda>v. if v = JNull then ''null'' else ''{}''),
       ToString = (\<lambda>v. ''[object Object]''),
       native_message =
         (\<lambda>e. case e of
                 Error m \<Rightarrow> m
               | TypeError \<Rightarrow> ''msg is null''
               | SyntaxError \<Rightarrow> ''JSON.parse: unexpected character'') \<rparr>"

text \<open>
  A vendor record as the directory returns it and the map renders it: id, name, service
  type and a GeoJSON point, longitude first.
\<close>

definition vendor :: "string \<Rightarrow> string \<Rightarrow> jsval" where
  "vendor n k =
     JObj [(''id'', JStr n), (''name'', JStr n), (''service_type'', JStr k),
           (''location'',
            JObj [(''type'', JStr ''Point''),
                  (''coordinates'', JArr [JNum 67.0011, JNum 24.8607])])]"

text \<open>A restored session: token \<^verbatim>\<open>T\<close>, an empty profile, the gate hidden.\<close>

definition signed_in :: App where
  "signed_in =
     (initial [''madad_token'' \<mapsto> ''T'', ''madad_user'' \<mapsto> ''{}''])
       \<lparr>token := JStr ''T'', user := JObj [], showAuthGate := False\<rparr>"

text \<open>A state with a position and one vendor on display.\<close>

definition located :: App where
  "located =
     (geo_success 1 2 (initial Map.empty))\<lparr>vendors := JArr [vendor ''V'' ''mechanic'']\<rparr>"

text \<open>The sign-in form, filled in.\<close>

definition filled_form :: AuthScreen where
  "filled_form =
     \<lparr> mode = login, phone = ''03001234567'', email = [], name = [], password = ''secret1'',
       loading = True, error = [] \<rparr>"

text \<open>
  A race of two vendor requests: a first fix issues request 0, choosing the category
  \<^verbatim>\<open>medical\<close> issues request 1, then request 1 is answered before request 0, each with
  one vendor record.
\<close>

definition answer :: "jsval \<Rightarrow> fetch_outcome" where
  "answer v = Resolved \<lparr>ok = True, json = Inr (JObj [(''vendors'', JArr [v])])\<rparr>"

definition race :: "event list" where
  "race =
     [Fix 1 2, SelectCategory ''medical'', Settle 1 (answer (vendor ''B'' ''medical'')),
      Settle 0 (answer (vendor ''A'' ''mechanic''))]"

section \<open>Helper facts\<close>

lemma get_prop_readable:
  "data \<noteq> JNull \<Longrightarrow> data \<noteq> JUndefined \<Longrightarrow> \<exists>v. get_prop data k = Inr v"
  by (cases data) simp_all

lemma verify_catch_is_logout: "verify_catch a = logout a"
  by (simp add: verify_catch_def logout_def)

lemma handleAuthed_renders_last:
  "last (handleAuthed_renders tok usr a) = handleAuthed tok usr a"
  by (simp add: handleAuthed_renders_def handleAuthed_def)

lemma position_known_initial: "position_known (initial ls)"
  by (simp add: position_known_def initial_def)

lemma position_known_fetchNearby:
  "position_known a \<Longrightarrow> position_known (fst (fetchNearby a))"
  by (auto simp: position_known_def fetchNearby_def split: option.splits)

lemma position_known_fetch_effect:
  "position_known new \<Longrightarrow> position_known (fst (fetch_effect old new))"
  by (simp add: fetch_effect_def position_known_fetchNearby)

lemma position_known_geo_success:
  "position_known (geo_success la lo a)"
  by (simp add: position_known_def geo_success_def)

lemma position_known_serviceType:
  "position_known a \<Longrightarrow> position_known (a\<lparr>serviceType := k\<rparr>)"
  by (simp add: position_known_def split: option.splits)

lemma position_known_settled:
  "position_known a \<Longrightarrow> position_known (fetchNearby_settled out a)"
  by (auto simp: position_known_def fetchNearby_settled_def fetch_catch_def
      split: fetch_outcome.splits sum.splits option.splits)

lemma app_issue: "app (issue r s) = fst r"
  by (simp add: issue_def split: option.splits)

lemma position_known_step:
  "position_known (app s) \<Longrightarrow> position_known (app (step s ev))"
proof (cases ev)
  case (Fix la lo)
  then show ?thesis
    by (simp add: app_issue position_known_fetch_effect position_known_geo_success)
next
  case (SelectCategory k)
  assume "position_known (app s)"
  with SelectCategory show ?thesis
    by (simp add: app_issue position_known_fetch_effect position_known_serviceType)
next
  case Refresh
  assume "position_known (app s)"
  with Refresh show ?thesis
    by (simp add: app_issue position_known_fetchNearby)
next
  case (Settle n out)
  assume "position_known (app s)"
  with Settle show ?thesis
    by (simp add: position_known_settled split: option.splits)
qed

lemma position_known_run:
  "position_known (app s) \<Longrightarrow> position_known (app (run s evs))"
  unfolding run_def
  by (induction evs arbitrary: s) (simp_all add: position_known_step)

section \<open>Vendor fetches that race\<close>

text \<open>
  C1, as stated, fails. In \<open>race\<close> request 0 is issued before request 1 and both are in
  flight; the answer to request 1 is applied and the collection shows the vendor \<^verbatim>\<open>B\<close>;
  then the answer to request 0, issued earlier, arrives and is not discarded: the
  collection shows the vendor \<^verbatim>\<open>A\<close>.
\<close>

theorem stale_result_overwrites_counterexample:
  "map fst (inflight (run (start (initial Map.empty)) (take 2 race))) = [0, 1]
   \<and> vendors (app (run (start (initial Map.empty)) (take 3 race)))
       = JArr [vendor ''B'' ''medical'']
   \<and> vendors (app (run (start (initial Map.empty)) race)) = JArr [vendor ''A'' ''mechanic'']"
  by (simp add: race_def answer_def run_def start_def initial_def issue_def fetch_effect_def
      deps_changed_def geo_success_def fetchNearby_def fetchNearby_settled_def js_or_def)

text \<open>
  C1, amended: the last answer to arrive wins, with no regard to the order of issue.
  Whichever request in flight is answered with 2xx and a JSON body other than \<^verbatim>\<open>null\<close>,
  its answer replaces the collection on display: by the body's \<^verbatim>\<open>vendors\<close>, or by the
  empty array when that is missing or falsy. A 2xx answer whose body is \<^verbatim>\<open>null\<close> or not
  JSON leaves the collection as it was and sets the notice.
\<close>

theorem settled_fetch_replaces_vendors:
  assumes "map_of (inflight s) n = Some q" and "ok res"
  shows "(\<forall>data v. json res = Inr data \<and> get_prop data ''vendors'' = Inr v \<longrightarrow>
            vendors (app (step s (Settle n (Resolved res)))) = js_or v (JArr []))
     \<and> (\<forall>data. json res = Inr data \<and> data \<noteq> JNull \<and> data \<noteq> JUndefined \<longrightarrow>
            (\<exists>v. get_prop data ''vendors'' = Inr v))
     \<and> ((\<exists>e. json res = Inl e) \<or> json res = Inr JNull \<longrightarrow>
            vendors (app (step s (Settle n (Resolved res)))) = vendors (app s)
            \<and> error (app (step s (Settle n (Resolved res)))) = ''Could not load nearby vendors'')"
  using assms
  by (auto simp: fetchNearby_settled_def fetch_catch_def get_prop_readable)

text \<open>
  C1, amended, at the race: after the answer to request 1, the older request 0 still
  replaces the collection when it is answered with a vendor record, and leaves it when
  it is answered with the body \<^verbatim>\<open>null\<close>.
\<close>

theorem settled_fetch_replaces_vendors_witness:
  "vendors (app (step (run (start (initial Map.empty)) (take 3 race))
      (Settle 0 (answer (vendor ''A'' ''mechanic''))))) = JArr [vendor ''A'' ''mechanic'']
   \<and> vendors (app (step (run (start (initial Map.empty)) (take 3 race))
      (Settle 0 (Resolved \<lparr>ok = True, json = Inr JNull\<rparr>)))) = JArr [vendor ''B'' ''medical'']"
proof -
  let ?s = "run (start (initial Map.empty)) (take 3 race)"
  let ?body = "JObj [(''vendors'', JArr [vendor ''A'' ''mechanic''])]"
  let ?r1 = "\<lparr>ok = True, json = Inr ?body\<rparr>"
  let ?r2 = "\<lparr>ok = True, json = Inr JNull\<rparr>"
  have h1: "map_of (inflight ?s) 0
      = Some \<lparr>lat = 1, lng = 2, radius_km = ''5'', service_type = None\<rparr>"
    by (simp add: race_def answer_def run_def start_def initial_def issue_def fetch_effect_def
        deps_changed_def geo_success_def fetchNearby_def fetchNearby_settled_def js_or_def)
  have b: "vendors (app ?s) = JArr [vendor ''B'' ''medical'']"
    by (simp add: race_def answer_def run_def start_def initial_def issue_def fetch_effect_def
        deps_changed_def geo_success_def fetchNearby_def fetchNearby_settled_def js_or_def)
  have h2: "ok ?r1" and h3: "ok ?r2" by simp_all
  have g: "get_prop ?body ''vendors'' = Inr (JArr [vendor ''A'' ''mechanic''])" by simp
  from settled_fetch_replaces_vendors [OF h1 h2] g
  have "vendors (app (step ?s (Settle 0 (Resolved ?r1)))) = JArr [vendor ''A'' ''mechanic'']"
    by (simp add: js_or_def)
  moreover from settled_fetch_replaces_vendors [OF h1 h3] b
  have "vendors (app (step ?s (Settle 0 (Resolved ?r2)))) = JArr [vendor ''B'' ''medical'']"
    by simp
  ultimately show ?thesis by (simp add: answer_def)
qed

section \<open>Manual refresh and the fallback coordinate\<close>

text \<open>
  C2, as stated, fails. With no position and the category \<^verbatim>\<open>medical\<close>, a manual refresh
  (\<^verbatim>\<open>fetchNearby\<close> from the button) returns at its guard: the state is unchanged and no
  request is sent, with the fallback coordinate or any other.
\<close>

theorem manual_refresh_without_position_counterexample:
  "fetchNearby ((initial Map.empty)\<lparr>serviceType := ''medical''\<rparr>)
     = ((initial Map.empty)\<lparr>serviceType := ''medical''\<rparr>, None)
   \<and> inflight (step (start ((initial Map.empty)\<lparr>serviceType := ''medical''\<rparr>)) Refresh) = []"
  by (simp add: fetchNearby_def initial_def start_def issue_def)

text \<open>
  C2, amended. Without a position \<^verbatim>\<open>fetchNearby\<close> sends nothing, and the fallback coordinate
  (24.8607, 67.0011) is the centre of the map only. With a position and the category
  \<^verbatim>\<open>medical\<close>, the request carries that position, the radius 5 and
  \<^verbatim>\<open>service_type=medical\<close>.
\<close>

theorem fetchNearby_query:
  "(position a = None \<longrightarrow> fetchNearby a = (a, None) \<and> center a = (24.8607, 67.0011))
   \<and> (\<forall>p. position a = Some p \<and> serviceType a = ''medical'' \<longrightarrow>
         snd (fetchNearby a) =
           Some \<lparr>lat = latitude p, lng = longitude p, radius_km = ''5'',
                 service_type = Some ''medical''\<rparr>)"
  by (simp add: fetchNearby_def center_def)

text \<open>C2, amended, without a position and at the position (1, 2).\<close>

theorem fetchNearby_query_witness:
  "snd (fetchNearby ((initial Map.empty)\<lparr>serviceType := ''medical''\<rparr>)) = None
   \<and> center ((initial Map.empty)\<lparr>serviceType := ''medical''\<rparr>) = (24.8607, 67.0011)
   \<and> snd (fetchNearby (located\<lparr>serviceType := ''medical''\<rparr>))
       = Some \<lparr>lat = 1, lng = 2, radius_km = ''5'', service_type = Some ''medical''\<rparr>"
  using fetchNearby_query [of "(initial Map.empty)\<lparr>serviceType := ''medical''\<rparr>"]
    fetchNearby_query [of "located\<lparr>serviceType := ''medical''\<rparr>"]
  by (simp add: initial_def located_def geo_success_def)

section \<open>Restoring a malformed profile\<close>

text \<open>
  C3 does not hold of the code. When the persisted profile is a non-empty text that
  \<^verbatim>\<open>JSON.parse\<close> rejects, the restore effect throws \<^verbatim>\<open>SyntaxError\<close> and never sets the gate;
  with the entry removed, the same store restores normally.
\<close>

theorem restore_malformed_user_throws:
  assumes "localStorage a ''madad_user'' = Some u" and "u \<noteq> []" and "JSON_parse rt u = None"
  shows "restore rt a = Inl SyntaxError
     \<and> (\<exists>a'. restore rt (removeItem ''madad_user'' a) = Inr a')"
  using assms by (simp add: restore_def removeItem_def Let_def)

text \<open>C3 at the store whose profile entry is the text \<^verbatim>\<open>{\<close>.\<close>

theorem restore_malformed_user_throws_witness:
  "restore example_engine (initial [''madad_user'' \<mapsto> ''{'']) = Inl SyntaxError
   \<and> restore example_engine (removeItem ''madad_user'' (initial [''madad_user'' \<mapsto> ''{'']))
       = Inr ((initial Map.empty)\<lparr>showAuthGate := True\<rparr>)"
proof -
  let ?a = "initial [''madad_user'' \<mapsto> ''{'']"
  have h1: "localStorage ?a ''madad_user'' = Some ''{''" by (simp add: initial_def)
  have h2: "''{'' \<noteq> []" by simp
  have h3: "JSON_parse example_engine ''{'' = None" by (simp add: example_engine_def)
  have "restore example_engine (removeItem ''madad_user'' ?a)
      = Inr ((initial Map.empty)\<lparr>showAuthGate := True\<rparr>)"
    by (simp add: restore_def removeItem_def initial_def truthy_item_def)
  with restore_malformed_user_throws [OF h1 h2 h3] show ?thesis by simp
qed

section \<open>Verifying the session\<close>

text \<open>
  C4, as stated, fails for a malformed body. \<^verbatim>\<open>verify\<close> reads \<^verbatim>\<open>res.ok\<close> and nothing
  else: a 2xx answer whose body is not JSON leaves the token, the persisted entry and the
  hidden gate as they were.
\<close>

theorem verify_ok_ignores_body_counterexample:
  "token (verify_settled (Resolved \<lparr>ok = True, json = Inl SyntaxError\<rparr>) signed_in) = JStr ''T''
   \<and> localStorage (verify_settled (Resolved \<lparr>ok = True, json = Inl SyntaxError\<rparr>) signed_in)
        ''madad_token'' = Some ''T''
   \<and> \<not> showAuthGate (verify_settled (Resolved \<lparr>ok = True, json = Inl SyntaxError\<rparr>) signed_in)"
  by (simp add: verify_settled_def signed_in_def initial_def)

text \<open>
  C4, amended. \<^verbatim>\<open>verify\<close> sends its request exactly when a token is held. When the
  request rejects (network error, a timeout of the
  transport) or is answered with a status that is not 2xx, whatever the body, the state is
  that of \<^verbatim>\<open>logout\<close>: gate shown, token and user \<^verbatim>\<open>null\<close>, both persisted entries removed.
  When it is answered with 2xx the state is unchanged, whatever the body. A settled
  \<^verbatim>\<open>verify\<close> ends in one of these two states.
\<close>

theorem verify_settled_outcomes:
  "((verify rt a \<noteq> None) = truthy (token a))
   \<and> ((out = Rejected e \<or> (out = Resolved res \<and> \<not> ok res)) \<longrightarrow>
      verify_settled out a = logout a
      \<and> token (verify_settled out a) = JNull \<and> user (verify_settled out a) = JNull
      \<and> showAuthGate (verify_settled out a)
      \<and> localStorage (verify_settled out a) ''madad_token'' = None
      \<and> localStorage (verify_settled out a) ''madad_user'' = None)
   \<and> (out = Resolved res \<and> ok res \<longrightarrow> verify_settled out a = a)
   \<and> (verify_settled out a = a \<or> verify_settled out a = logout a)"
  by (cases out)
    (auto simp: verify_def verify_settled_def verify_catch_def logout_def removeItem_def)

text \<open>C4, amended, at a restored session: a 401, a rejected request, a 200.\<close>

theorem verify_settled_outcomes_witness:
  "verify example_engine signed_in = Some ''Bearer T''
   \<and> token (verify_settled (Resolved \<lparr>ok = False, json = Inl SyntaxError\<rparr>) signed_in) = JNull
   \<and> localStorage (verify_settled (Resolved \<lparr>ok = False, json = Inl SyntaxError\<rparr>) signed_in)
        ''madad_token'' = None
   \<and> verify_settled (Rejected TypeError) signed_in = logout signed_in
   \<and> verify_settled (Resolved \<lparr>ok = True, json = Inr JNull\<rparr>) signed_in = signed_in"
  using
    verify_settled_outcomes [of example_engine signed_in
      "Resolved \<lparr>ok = False, json = Inl SyntaxError\<rparr>" TypeError
      "\<lparr>ok = False, json = Inl SyntaxError\<rparr>"]
    verify_settled_outcomes [of example_engine signed_in "Rejected TypeError" TypeError
      "\<lparr>ok = False, json = Inl SyntaxError\<rparr>"]
    verify_settled_outcomes [of example_engine signed_in
      "Resolved \<lparr>ok = True, json = Inr JNull\<rparr>" TypeError "\<lparr>ok = True, json = Inr JNull\<rparr>"]
  by (simp add: logout_def removeItem_def verify_def signed_in_def)

section \<open>A vendor fetch that fails\<close>

text \<open>
  C5. When a vendor fetch fails, by a rejected request or by an answer that is not 2xx,
  the collection on display is what it was, the notice \<^verbatim>\<open>Could not load nearby vendors\<close> is
  set, and token, user, gate, persisted store and position are what they were. Nothing is
  retried: the dependencies of the fetch effect are unchanged, so it does not run, and the
  settling issues no request. The notice lasts until the next fetch starts.
\<close>

theorem fetch_failure_keeps_vendors:
  assumes "out = Rejected e \<or> (out = Resolved res \<and> \<not> ok res)"
  shows "vendors (fetchNearby_settled out a) = vendors a
     \<and> error (fetchNearby_settled out a) = ''Could not load nearby vendors''
     \<and> token (fetchNearby_settled out a) = token a
     \<and> user (fetchNearby_settled out a) = user a
     \<and> showAuthGate (fetchNearby_settled out a) = showAuthGate a
     \<and> localStorage (fetchNearby_settled out a) = localStorage a
     \<and> position (fetchNearby_settled out a) = position a
     \<and> snd (fetch_effect a (fetchNearby_settled out a)) = None
     \<and> issued (step s (Settle n out)) = issued s
     \<and> (position a \<noteq> None \<longrightarrow> error (fst (fetchNearby (fetchNearby_settled out a))) = [])"
  using assms
  by (auto simp: fetchNearby_settled_def fetch_catch_def fetch_effect_def deps_changed_def
      fetchNearby_def split: option.splits)

text \<open>C5 at a state that shows one vendor, for an answer with status 500.\<close>

theorem fetch_failure_keeps_vendors_witness:
  "vendors (fetchNearby_settled (Resolved \<lparr>ok = False, json = Inr JNull\<rparr>) located)
     = JArr [vendor ''V'' ''mechanic'']
   \<and> error (fetchNearby_settled (Resolved \<lparr>ok = False, json = Inr JNull\<rparr>) located)
     = ''Could not load nearby vendors''
   \<and> snd (fetch_effect located
        (fetchNearby_settled (Resolved \<lparr>ok = False, json = Inr JNull\<rparr>) located)) = None"
proof -
  let ?res = "\<lparr>ok = False, json = Inr JNull\<rparr>"
  have h: "Resolved ?res = Rejected TypeError \<or> (Resolved ?res = Resolved ?res \<and> \<not> ok ?res)"
    by simp
  show ?thesis
    using fetch_failure_keeps_vendors [OF h, of located "start located" 0]
    by (simp add: located_def)
qed

section \<open>Sign-in and registration\<close>




text \<open>
  C7. When login or registration is answered with 2xx and a JSON object that carries a
  string \<^verbatim>\<open>access_token\<close> and a \<^verbatim>\<open>user\<close>, the one step that handles the answer leaves the
  token and the user set, the gate hidden, and the token and the serialized user written
  to the persisted store. The two writes to the store and the three state updates run in
  one synchronous stretch, with no await between them, which is why they are one step
  here. Even a render after each single state update finds memory and store agreed on
  whether there is a token: the store is written before the first update.
\<close>

theorem successful_submit_sets_session:
  assumes "ok res" and "json res = Inr (JObj fs)"
    and "map_of fs ''access_token'' = Some (JStr t)" and "map_of fs ''user'' = Some u"
    and "u \<noteq> JUndefined"
  shows "token (snd (handleSubmit_settled rt (Resolved res) (scr, a))) = JStr t
     \<and> user (snd (handleSubmit_settled rt (Resolved res) (scr, a))) = u
     \<and> \<not> showAuthGate (snd (handleSubmit_settled rt (Resolved res) (scr, a)))
     \<and> localStorage (snd (handleSubmit_settled rt (Resolved res) (scr, a)))
         = (localStorage a)(''madad_token'' \<mapsto> t, ''madad_user'' \<mapsto> JSON_stringify rt u)
     \<and> snd (handleSubmit_settled rt (Resolved res) (scr, a))
         = last (handleAuthed_renders (JStr t) u
             (setItem ''madad_user'' (JSON_stringify rt u) (setItem ''madad_token'' t a)))
     \<and> (\<forall>x \<in> set (handleAuthed_renders (JStr t) u
             (setItem ''madad_user'' (JSON_stringify rt u) (setItem ''madad_token'' t a))).
           truthy (token x) = truthy_item (localStorage x ''madad_token''))"
  using assms
  by (cases u)
    (auto simp: handleSubmit_settled_def handleAuthed_def handleAuthed_renders_def setItem_def
      truthy_item_def)

text \<open>C7 from the first start, for an answer with the token \<^verbatim>\<open>T\<close> and an empty profile.\<close>

theorem successful_submit_sets_session_witness:
  "token (snd (handleSubmit_settled example_engine
      (Resolved \<lparr>ok = True, json = Inr (JObj [(''access_token'', JStr ''T''), (''user'', JObj [])])\<rparr>)
      (filled_form, initial Map.empty))) = JStr ''T''
   \<and> user (snd (handleSubmit_settled example_engine
      (Resolved \<lparr>ok = True, json = Inr (JObj [(''access_token'', JStr ''T''), (''user'', JObj [])])\<rparr>)
      (filled_form, initial Map.empty))) = JObj []
   \<and> localStorage (snd (handleSubmit_settled example_engine
      (Resolved \<lparr>ok = True, json = Inr (JObj [(''access_token'', JStr ''T''), (''user'', JObj [])])\<rparr>)
      (filled_form, initial Map.empty)))
      = [''madad_token'' \<mapsto> ''T'', ''madad_user'' \<mapsto> ''{}'']"
proof -
  let ?fs = "[(''access_token'', JStr ''T''), (''user'', JObj [])]"
  let ?res = "\<lparr>ok = True, json = Inr (JObj ?fs)\<rparr>"
  have h1: "ok ?res" by simp
  have h2: "json ?res = Inr (JObj ?fs)" by simp
  have h3: "map_of ?fs ''access_token'' = Some (JStr ''T'')" by simp
  have h4: "map_of ?fs ''user'' = Some (JObj [])" by simp
  have h5: "JObj [] \<noteq> JUndefined" by simp
  have e: "JSON_stringify example_engine (JObj []) = ''{}''"
    by (simp add: example_engine_def)
  have l: "localStorage (initial Map.empty) = Map.empty"
    by (simp add: initial_def)
  from successful_submit_sets_session
    [OF h1 h2 h3 h4 h5, of example_engine filled_form "initial Map.empty"]
  show ?thesis
    unfolding e l by blast
qed

section \<open>The reactive fetch\<close>



section \<open>Guest mode\<close>

text \<open>
  C9. \<^verbatim>\<open>continueAsGuest\<close> is \<^verbatim>\<open>handleGuest\<close>: in every state it leaves the token, the user
  and every entry of \<^verbatim>\<open>localStorage\<close> as they were. It hides the gate, and putting the gate
  flag back gives the state before the call, so nothing else has changed.
\<close>

theorem handleGuest_keeps_session:
  "token (handleGuest a) = token a \<and> user (handleGuest a) = user a
   \<and> localStorage (handleGuest a) = localStorage a
   \<and> \<not> showAuthGate (handleGuest a)
   \<and> (handleGuest a)\<lparr>showAuthGate := showAuthGate a\<rparr> = a"
  by (simp add: handleGuest_def)

section \<open>An answer without vendors\<close>

text \<open>
  C10, as stated, fails. A 2xx answer whose body is the JSON \<^verbatim>\<open>null\<close>, or is not JSON,
  has no \<^verbatim>\<open>vendors\<close> field either, but reading it throws inside the \<^verbatim>\<open>try\<close>: the vendor on
  display stays and the notice is set.
\<close>

theorem unreadable_body_keeps_vendors_counterexample:
  "vendors (fetchNearby_settled (Resolved \<lparr>ok = True, json = Inr JNull\<rparr>) located)
     = JArr [vendor ''V'' ''mechanic'']
   \<and> error (fetchNearby_settled (Resolved \<lparr>ok = True, json = Inr JNull\<rparr>) located)
     = ''Could not load nearby vendors''
   \<and> vendors (fetchNearby_settled (Resolved \<lparr>ok = True, json = Inl SyntaxError\<rparr>) located)
     = JArr [vendor ''V'' ''mechanic'']
   \<and> error (fetchNearby_settled (Resolved \<lparr>ok = True, json = Inl SyntaxError\<rparr>) located)
     = ''Could not load nearby vendors''"
  by (simp add: fetchNearby_settled_def fetch_catch_def located_def)

text \<open>
  C10, amended. When a vendor fetch is answered with 2xx and a JSON body other than
  \<^verbatim>\<open>null\<close>, reading \<^verbatim>\<open>vendors\<close> succeeds, and when that is missing or \<^verbatim>\<open>null\<close> the
  collection on display becomes the empty array, whatever it was, and no notice is set.
  When the body of the 2xx answer is \<^verbatim>\<open>null\<close> or not JSON, the collection is left as it
  was and the notice \<^verbatim>\<open>Could not load nearby vendors\<close> is set.
\<close>

theorem missing_vendors_gives_empty:
  assumes "ok res"
  shows "(\<forall>data. json res = Inr data \<and> data \<noteq> JNull \<and> data \<noteq> JUndefined \<longrightarrow>
            (\<exists>v. get_prop data ''vendors'' = Inr v))
     \<and> (\<forall>data v. json res = Inr data \<and> get_prop data ''vendors'' = Inr v
            \<and> (v = JUndefined \<or> v = JNull) \<longrightarrow>
            vendors (fetchNearby_settled (Resolved res) a) = JArr []
            \<and> error (fetchNearby_settled (Resolved res) a) = error a)
     \<and> (\<forall>fs. json res = Inr (JObj fs)
            \<and> (map_of fs ''vendors'' = None \<or> map_of fs ''vendors'' = Some JNull) \<longrightarrow>
            vendors (fetchNearby_settled (Resolved res) a) = JArr []
            \<and> error (fetchNearby_settled (Resolved res) a) = error a)
     \<and> ((\<exists>e. json res = Inl e) \<or> json res = Inr JNull \<longrightarrow>
            vendors (fetchNearby_settled (Resolved res) a) = vendors a
            \<and> error (fetchNearby_settled (Resolved res) a) = ''Could not load nearby vendors'')"
  using assms
  by (auto simp: fetchNearby_settled_def fetch_catch_def js_or_def get_prop_readable)

text \<open>
  C10, amended, at a state that shows one vendor, for the bodies \<^verbatim>\<open>{}\<close>,
  \<^verbatim>\<open>{"vendors": null}\<close> and \<^verbatim>\<open>null\<close>.
\<close>

theorem missing_vendors_gives_empty_witness:
  "vendors (fetchNearby_settled (Resolved \<lparr>ok = True, json = Inr (JObj [])\<rparr>) located) = JArr []
   \<and> vendors (fetchNearby_settled
        (Resolved \<lparr>ok = True, json = Inr (JObj [(''vendors'', JNull)])\<rparr>) located) = JArr []
   \<and> vendors (fetchNearby_settled (Resolved \<lparr>ok = True, json = Inr JNull\<rparr>) located)
       = JArr [vendor ''V'' ''mechanic'']
   \<and> vendors located = JArr [vendor ''V'' ''mechanic'']"
proof -
  let ?r1 = "\<lparr>ok = True, json = Inr (JObj [])\<rparr>"
  let ?r2 = "\<lparr>ok = True, json = Inr (JObj [(''vendors'', JNull)])\<rparr>"
  let ?r3 = "\<lparr>ok = True, json = Inr JNull\<rparr>"
  have h1: "ok ?r1" and h2: "ok ?r2" and h3: "ok ?r3" by simp_all
  show ?thesis
    using missing_vendors_gives_empty [OF h1, of located]
      missing_vendors_gives_empty [OF h2, of located]
      missing_vendors_gives_empty [OF h3, of located]
    by (simp add: located_def)
qed

end
